theory Spec2Isabelle
  imports Main
begin

section \<open>Conventions of the embedding\<close>

text \<open>
  The bot is written in Python over an SQLite store. Python integers are \<open>int\<close>.
  Python \<open>str\<close> values that the program only compares (rank names, status codes,
  event kinds, karma reasons) are \<open>string\<close>; Cyrillic and emoji literals of the
  source are written in Latin transliteration, one distinct literal per distinct source
  literal. Texts the program inspects character by character are lists of Unicode code
  points (section on texts below).
\<close>

datatype py_error = IndexError | KeyError | OperationalError

definition py_index :: "'a list \<Rightarrow> int \<Rightarrow> py_error + 'a" where
  \<comment> \<open>\<open>xs[i]\<close>: a negative index counts from the end, out of range raises.\<close>
  "py_index xs i =
     (if 0 \<le> i \<and> i < int (length xs) then Inr (xs ! nat i)
      else if i < 0 \<and> - int (length xs) \<le> i then Inr (xs ! nat (int (length xs) + i))
      else Inl IndexError)"

definition dict_get :: "('k \<times> 'v) list \<Rightarrow> 'k \<Rightarrow> 'v \<Rightarrow> 'v" where
  \<comment> \<open>\<open>d.get(k, default)\<close> on a dict literal kept in insertion order.\<close>
  "dict_get d k dflt = (case map_of d k of Some v \<Rightarrow> v | None \<Rightarrow> dflt)"

definition clamp :: "int \<Rightarrow> int \<Rightarrow> int \<Rightarrow> int" where
  \<comment> \<open>\<open>max(lo, min(hi, x))\<close>.\<close>
  "clamp lo hi x = max lo (min hi x)"


section \<open>Texts\<close>

text \<open>
  A Python \<open>str\<close> that the program inspects is the list of its code points, so that
  \<open>len\<close> is \<open>length\<close>. Cyrillic literals of the source are written as code points
  (the letters from \<open>a\<close> = 1072 to \<open>ya\<close> = 1103, \<open>yo\<close> = 1105), each with its
  transliteration beside it.

  What Python takes from the Unicode character database is a parameter of the functions
  that use it: \<open>str.lower\<close>, NFKD normalisation, and the classes of the \<open>re\<close> module
  for \<open>str\<close> patterns (\<open>\s\<close>, which is also what \<open>str.strip\<close> removes, \<open>\d\<close>
  with the value \<open>int\<close> gives a digit, and \<open>\w\<close>). The general theorems hold for
  every such table; concrete runs use \<open>basic_ucd\<close>, the table restricted to ASCII and
  the Russian alphabet.
\<close>

type_synonym ustr = "nat list"

record ucd =
  uc_lower :: "ustr \<Rightarrow> ustr"
  uc_nfkd :: "ustr \<Rightarrow> ustr"
  uc_is_space :: "nat \<Rightarrow> bool"
  uc_is_digit :: "nat \<Rightarrow> bool"
  uc_digit_value :: "nat \<Rightarrow> nat"
  uc_is_word :: "nat \<Rightarrow> bool"

definition basic_lower :: "nat \<Rightarrow> nat" where
  "basic_lower c =
     (if 65 \<le> c \<and> c \<le> 90 then c + 32
      else if 1040 \<le> c \<and> c \<le> 1071 then c + 32
      else if c = 1025 then 1105
      else c)"

definition basic_nfkd :: "nat \<Rightarrow> ustr" where
  \<comment> \<open>The short i and the letter yo, small and capital, decompose into the base letter
      and a combining mark.\<close>
  "basic_nfkd c =
     (if c = 1081 then [1080, 774]
      else if c = 1105 then [1077, 776]
      else if c = 1049 then [1048, 774]
      else if c = 1025 then [1045, 776]
      else [c])"

definition basic_is_space :: "nat \<Rightarrow> bool" where
  "basic_is_space c = ((9 \<le> c \<and> c \<le> 13) \<or> (28 \<le> c \<and> c \<le> 32) \<or> c = 133 \<or> c = 160)"

definition basic_is_digit :: "nat \<Rightarrow> bool" where
  "basic_is_digit c = (48 \<le> c \<and> c \<le> 57)"

definition basic_is_word :: "nat \<Rightarrow> bool" where
  "basic_is_word c =
     ((48 \<le> c \<and> c \<le> 57) \<or> (65 \<le> c \<and> c \<le> 90) \<or> c = 95 \<or> (97 \<le> c \<and> c \<le> 122)
      \<or> (1040 \<le> c \<and> c \<le> 1103) \<or> c = 1025 \<or> c = 1105)"

definition basic_ucd :: ucd where
  "basic_ucd =
     \<lparr>uc_lower = map basic_lower,
      uc_nfkd = (\<lambda>s. concat (map basic_nfkd s)),
      uc_is_space = basic_is_space,
      uc_is_digit = basic_is_digit,
      uc_digit_value = (\<lambda>c. c - 48),
      uc_is_word = basic_is_word\<rparr>"

fun starts_with :: "'a list \<Rightarrow> 'a list \<Rightarrow> bool" where
  \<comment> \<open>\<open>s.startswith(p)\<close>.\<close>
  "starts_with [] s = True"
| "starts_with (x # p) [] = False"
| "starts_with (x # p) (y # s) = (if x = y then starts_with p s else False)"


definition head_of :: "'a list \<Rightarrow> 'a option" where
  \<comment> \<open>The character at the current position, \<open>None\<close> at the end of the text.\<close>
  "head_of s = (case s of [] \<Rightarrow> None | c # _ \<Rightarrow> Some c)"

definition word_boundary :: "ucd \<Rightarrow> nat option \<Rightarrow> nat option \<Rightarrow> bool" where
  \<comment> \<open>\<open>\b\<close> between the character before a position and the character at it:
      exactly one of the two is a word character, where outside the text there is
      none.\<close>
  "word_boundary U left right =
     ((case left of None \<Rightarrow> False | Some c \<Rightarrow> uc_is_word U c)
        \<noteq> (case right of None \<Rightarrow> False | Some c \<Rightarrow> uc_is_word U c))"

definition match_word_here :: "ucd \<Rightarrow> ustr \<Rightarrow> nat option \<Rightarrow> ustr \<Rightarrow> bool" where
  \<comment> \<open>\<open>\bw\b\<close> matches at the head of \<open>s\<close>, the character before being \<open>prev\<close>.\<close>
  "match_word_here U w prev s =
     (if starts_with w s
      then (if word_boundary U prev (head_of s)
            then word_boundary U (if w = [] then prev else Some (last w)) (head_of (drop (length w) s))
            else False)
      else False)"

fun search_word_from :: "ucd \<Rightarrow> ustr \<Rightarrow> nat option \<Rightarrow> ustr \<Rightarrow> bool" where
  "search_word_from U w prev [] = match_word_here U w prev []"
| "search_word_from U w prev (c # s) =
     (if match_word_here U w prev (c # s) then True else search_word_from U w (Some c) s)"

definition search_word :: "ucd \<Rightarrow> ustr \<Rightarrow> ustr \<Rightarrow> bool" where
  \<comment> \<open>\<open>re.search(rf"\b{re.escape(w)}\b", s)\<close> finds a match: the positions are
      tried from left to right.\<close>
  "search_word U w s = search_word_from U w None s"


section \<open>Ranks (app/services/ranking.py)\<close>

definition RANK_NAMES :: "string list" where
  "RANK_NAMES =
     [''Brodyaga'',          \<comment> \<open>0..99\<close>
      ''Shpana'',            \<comment> \<open>100..199\<close>
      ''Dvorovoy'',          \<comment> \<open>200..299\<close>
      ''Byvalyy'',           \<comment> \<open>300..399\<close>
      ''Avtoritet'',         \<comment> \<open>400..499\<close>
      ''Mixtape Hustler'',   \<comment> \<open>500..599\<close>
      ''Ulichnyy OG'',       \<comment> \<open>600..699\<close>
      ''Platinovyy Igrok'',  \<comment> \<open>700..799\<close>
      ''Big Ape'',           \<comment> \<open>800..899\<close>
      ''Korol Kvartala'',    \<comment> \<open>900..999\<close>
      ''Legenda Ulits'']     \<comment> \<open>1000+\<close>"

definition NEGATIVE_RANK :: string where
  "NEGATIVE_RANK = ''Negative rank''"

definition rank_for :: "int \<Rightarrow> py_error + string" where
  \<comment> \<open>\<open>k // 100\<close> is floor division, as \<open>div\<close> on \<open>int\<close>.\<close>
  "rank_for k =
     (if k < 0 then Inr NEGATIVE_RANK
      else let idx = k div 100
           in if idx \<ge> int (length RANK_NAMES) then py_index RANK_NAMES (-1)
              else py_index RANK_NAMES idx)"


section \<open>Karma policy (app/services/karma_policy.py)\<close>

definition URGENCY_BONUS_TODAY :: int where "URGENCY_BONUS_TODAY = 1"
definition DECLINE_PENALTY :: int where "DECLINE_PENALTY = -3"
definition REWORK_PENALTY :: int where "REWORK_PENALTY = -1"

definition POSTPONE_PENALTIES :: "(int \<times> int) list" where
  "POSTPONE_PENALTIES = [(1, 0), (2, -1), (3, -2)]"

definition postpone_penalty :: "int \<Rightarrow> int" where
  "postpone_penalty days = dict_get POSTPONE_PENALTIES days (-2)"

definition rework_penalty :: int where
  "rework_penalty = REWORK_PENALTY"

definition cb_postpone_days_tier :: "nat \<Rightarrow> int \<times> int" where
  \<comment> \<open>app/handlers/missions.py, \<open>cb_postpone_days\<close>: the day count of the button
      (digits, by the handler's filter) is clamped to 1..3 and priced in place.\<close>
  "cb_postpone_days_tier n =
     (let days = clamp 1 3 (int n);
          penalty = (if days = 1 then 0 else (if days = 2 then -1 else -2))
      in (days, penalty))"


text \<open>The estimator. The dicts are kept in insertion order, which the loop follows.\<close>

definition CATEGORY_KEYWORDS :: "(string \<times> ustr list) list" where
  "CATEGORY_KEYWORDS =
     [(''housekeeping'',
       [
        [1084, 1091, 1089, 1086, 1088],  \<comment> \<open>musor\<close>
        [1091, 1073, 1086, 1088],  \<comment> \<open>ubor\<close>
        [1091, 1073, 1088, 1072, 1090, 1100],  \<comment> \<open>ubrat\<close>
        [1087, 1086, 1084, 1099, 1090, 1100],  \<comment> \<open>pomyt\<close>
        [1082, 1091, 1088, 1100, 1077, 1088],  \<comment> \<open>kurer\<close>
        [1076, 1086, 1085, 1077, 1089, 1090, 1080],  \<comment> \<open>donesti\<close>
        [1087, 1077, 1088, 1077, 1085, 1077, 1089, 1090, 1080],  \<comment> \<open>perenesti\<close>
        [1079, 1072, 1082, 1091, 1087, 1080, 1090, 1100]  \<comment> \<open>zakupit\<close>
       ]),
      (''record'',
       [
        [1079, 1072, 1087, 1080, 1089],  \<comment> \<open>zapis\<close>
        [1074, 1086, 1082, 1072, 1083],  \<comment> \<open>vokal\<close>
        [1082, 1091, 1087, 1083, 1077, 1090],  \<comment> \<open>kuplet\<close>
        [1076, 1091, 1073, 1083],  \<comment> \<open>dubl\<close>
        [1075, 1086, 1083, 1086, 1089],  \<comment> \<open>golos\<close>
        [1073, 1080, 1090, 1086, 1074, 1072, 1103],  \<comment> \<open>bitovaya\<close>
        [1092, 1083, 1086, 1091]  \<comment> \<open>flou\<close>
       ]),
      (''mix'',
       [
        [1089, 1074, 1077, 1089, 1090, 1080],  \<comment> \<open>svesti\<close>
        [1084, 1080, 1082, 1089],  \<comment> \<open>miks\<close>
        [1101, 1082, 1074, 1072, 1083],  \<comment> \<open>ekval\<close>
        [101, 113],  \<comment> \<open>eq\<close>
        [1082, 1086, 1084, 1087, 1088, 1077, 1089, 1089],  \<comment> \<open>kompress\<close>
        [109, 97, 115, 116, 101, 114],  \<comment> \<open>master\<close>
        [1084, 1072, 1089, 1090, 1077, 1088],  \<comment> \<open>master\<close>
        [1084, 1072, 1089, 1090, 1077, 1088, 1080, 1085, 1075]  \<comment> \<open>mastering\<close>
       ]),
      (''video'',
       [
        [1084, 1086, 1085, 1090, 1072, 1078],  \<comment> \<open>montazh\<close>
        [1074, 1080, 1076, 1077, 1086],  \<comment> \<open>video\<close>
        [1089, 1082, 1083, 1077, 1081],  \<comment> \<open>skley\<close>
        [1094, 1074, 1077, 1090, 1082, 1086, 1088],  \<comment> \<open>tsvetkor\<close>
        [99, 111, 108, 111, 114],  \<comment> \<open>color\<close>
        [1090, 1080, 1090, 1088, 1099],  \<comment> \<open>titry\<close>
        [1089, 1072, 1073],  \<comment> \<open>sab\<close>
        [1089, 1091, 1073, 1090, 1080, 1090, 1088]  \<comment> \<open>subtitr\<close>
       ]),
      (''design'',
       [
        [1086, 1073, 1083, 1086, 1078, 1082, 1072],  \<comment> \<open>oblozhka\<close>
        [1083, 1086, 1075, 1086, 1090, 1080, 1087],  \<comment> \<open>logotip\<close>
        [1073, 1072, 1085, 1085, 1077, 1088],  \<comment> \<open>banner\<close>
        [1087, 1086, 1089, 1090, 1077, 1088],  \<comment> \<open>poster\<close>
        [1088, 1077, 1085, 1076, 1077, 1088],  \<comment> \<open>render\<close>
        [1085, 1077, 1081, 1088, 1086, 1085],  \<comment> \<open>neyron\<close>
        [1087, 1088, 1086, 1084, 1087, 1090],  \<comment> \<open>prompt\<close>
        [1084, 1072, 1082, 1077, 1090],  \<comment> \<open>maket\<close>
        [1074, 1077, 1082, 1090, 1086, 1088]  \<comment> \<open>vektor\<close>
       ]),
      (''smm'',
       [
        [1087, 1086, 1089, 1090],  \<comment> \<open>post\<close>
        [105, 110, 115, 116, 97, 103, 114, 97, 109],  \<comment> \<open>instagram\<close>
        [1080, 1085, 1089, 1090, 1072, 1075, 1088, 1072, 1084],  \<comment> \<open>instagram\<close>
        [1090, 1080, 1079, 1077, 1088],  \<comment> \<open>tizer\<close>
        [1089, 1085, 1080, 1087, 1077, 1090],  \<comment> \<open>snipet\<close>
        [115, 110, 105, 112, 112, 101, 116],  \<comment> \<open>snippet\<close>
        [115, 104, 111, 114, 116, 115],  \<comment> \<open>shorts\<close>
        [1089, 1090, 1086, 1088, 1080, 1089]  \<comment> \<open>storis\<close>
       ]),
      (''dev'',
       [
        [1073, 1086, 1090],  \<comment> \<open>bot\<close>
        [1089, 1082, 1088, 1080, 1087, 1090],  \<comment> \<open>skript\<close>
        [1082, 1086, 1076],  \<comment> \<open>kod\<close>
        [112, 121, 116, 104, 111, 110],  \<comment> \<open>python\<close>
        [112, 121],  \<comment> \<open>py\<close>
        [97, 112, 105],  \<comment> \<open>api\<close>
        [1080, 1085, 1090, 1077, 1075, 1088, 1072, 1094, 1080, 1103],  \<comment> \<open>integratsiya\<close>
        [112, 105, 112, 101, 108, 105, 110, 101]  \<comment> \<open>pipeline\<close>
       ])]"

definition CATEGORY_BASE_DIFFICULTY :: "(string \<times> int) list" where
  "CATEGORY_BASE_DIFFICULTY =
     [(''housekeeping'', 1), (''smm'', 2), (''design'', 3), (''record'', 3), (''video'', 4), (''dev'', 4), (''mix'', 5)]"

record karma_decision =
  kd_category :: string
  kd_difficulty :: int
  kd_base_points :: int
  kd_urgency_bonus :: int
  kd_total_reward :: int

definition match_category :: "ucd \<Rightarrow> ustr \<Rightarrow> string" where
  \<comment> \<open>\<open>_match_category\<close>: the first category with a keyword found as a whole word.\<close>
  "match_category U text =
     (let s = uc_lower U text
      in case find (\<lambda>cw. list_ex (\<lambda>w. search_word U w s) (snd cw)) CATEGORY_KEYWORDS of
           Some cw \<Rightarrow> fst cw
         | None \<Rightarrow> ''housekeeping'')"

definition estimate :: "ucd \<Rightarrow> ustr \<Rightarrow> bool \<Rightarrow> karma_decision" where
  "estimate U text due_today =
     (let cat = match_category U text;
          diff0 = clamp 1 5 (dict_get CATEGORY_BASE_DIFFICULTY cat 2);
          diff = (if length text > 80 then min 5 (diff0 + 1) else diff0);
          base = diff;
          bonus = (if due_today then URGENCY_BONUS_TODAY else 0)
      in \<lparr>kd_category = cat, kd_difficulty = diff, kd_base_points = base,
          kd_urgency_bonus = bonus, kd_total_reward = base + bonus\<rparr>)"


section \<open>Difficulty from the text (app/services/ai_assistant.py)\<close>

subsection \<open>Phrase tables\<close>

















subsection \<open>Normalisation and tokens\<close>









subsection \<open>\<open>difflib.SequenceMatcher\<close>\<close>










subsection \<open>Fuzzy phrase matching\<close>






subsection \<open>Counting snippets\<close>













subsection \<open>The scale\<close>



section \<open>The store (app/db.py)\<close>

text \<open>
  Each table is the list of its rows in rowid order; only the columns the modelled
  operations read or write are kept. An f-string is kept as its template with the
  values it interpolates; a JSON payload is the list of its key/value pairs.
\<close>

type_synonym reason = "string \<times> int list"

datatype jval = JInt int | JStr string

record user_row =
  u_tg_id :: int
  u_karma :: int
  u_rank :: string
  u_is_admin :: bool

record mission_row =
  m_id :: int
  m_author_tg_id :: int
  m_deadline_ts :: "int option"
  m_difficulty :: int
  m_status :: string
  m_reminder_stage :: string
  m_extension_count :: int
  m_closed_at :: "int option"

record assignment_row =
  a_mission_id :: int
  a_assignee_tg_id :: int

record event_row =
  e_kind :: string
  e_payload :: "(string \<times> jval) list"
  e_created_at :: int

record karma_log_row =
  k_tg_id :: int
  k_delta :: int
  k_reason :: reason
  k_created_at :: int

record db =
  users :: "user_row list"
  missions :: "mission_row list"
  assignments :: "assignment_row list"
  events :: "event_row list"
  karma_log :: "karma_log_row list"

definition res_bind :: "py_error + 'a \<Rightarrow> ('a \<Rightarrow> py_error + 'b) \<Rightarrow> py_error + 'b" where
  \<comment> \<open>Sequencing of calls that may raise: the first exception propagates.\<close>
  "res_bind r f = (case r of Inl e \<Rightarrow> Inl e | Inr x \<Rightarrow> f x)"


section \<open>Karma ledger (app/services/karma.py)\<close>

definition ledger_tx :: "int \<Rightarrow> int \<Rightarrow> int \<Rightarrow> reason \<Rightarrow> db \<Rightarrow> db" where
  \<comment> \<open>The transaction of \<open>add_karma_tg\<close>: the INSERT into \<open>karma_log\<close> and the
      UPDATE of \<open>users.karma\<close> for the rows with that \<open>tg_id\<close>, committed together.\<close>
  "ledger_tx now tg_id delta rsn d =
     d\<lparr>karma_log := karma_log d @
          [\<lparr>k_tg_id = tg_id, k_delta = delta, k_reason = rsn, k_created_at = now\<rparr>],
       users := map (\<lambda>u. if u_tg_id u = tg_id then u\<lparr>u_karma := u_karma u + delta\<rparr> else u)
                  (users d)\<rparr>"

definition recompute_rank_by_tg :: "int \<Rightarrow> db \<Rightarrow> py_error + db" where
  "recompute_rank_by_tg tg_id d =
     (case find (\<lambda>u. u_tg_id u = tg_id) (users d) of
        None \<Rightarrow> Inr d
      | Some row \<Rightarrow>
          res_bind (rank_for (u_karma row)) (\<lambda>new_rank.
            Inr (d\<lparr>users := map (\<lambda>u. if u_tg_id u = tg_id then u\<lparr>u_rank := new_rank\<rparr> else u)
                               (users d)\<rparr>)))"

definition add_karma_tg :: "int \<Rightarrow> int \<Rightarrow> int \<Rightarrow> reason \<Rightarrow> db \<Rightarrow> py_error + db" where
  "add_karma_tg now tg_id delta rsn d = recompute_rank_by_tg tg_id (ledger_tx now tg_id delta rsn d)"

fun add_karma_each :: "int \<Rightarrow> int list \<Rightarrow> int \<Rightarrow> reason \<Rightarrow> db \<Rightarrow> py_error + db" where
  \<comment> \<open>\<open>for tg in tgs: await add_karma_tg(tg, delta, reason)\<close>.\<close>
  "add_karma_each now [] delta rsn d = Inr d"
| "add_karma_each now (tg # tgs) delta rsn d =
     res_bind (add_karma_tg now tg delta rsn d) (add_karma_each now tgs delta rsn)"

definition reset_all_karma :: "db \<Rightarrow> db" where
  "reset_all_karma d =
     d\<lparr>users := map (\<lambda>u. u\<lparr>u_karma := 0, u_rank := ''Brodyaga''\<rparr>) (users d),
       karma_log := []\<rparr>"

definition apply_decline_penalty :: "int \<Rightarrow> int \<Rightarrow> int \<Rightarrow> bool \<Rightarrow> db \<Rightarrow> py_error + (db \<times> int)" where
  "apply_decline_penalty now tg_id difficulty household d =
     (let pen = (if household
                 then (if difficulty \<le> 1 then -3 else if difficulty = 2 then -4 else -5)
                 else -2)
      in res_bind (add_karma_tg now tg_id pen (''Otkaz ot missii'', []) d) (\<lambda>d'. Inr (d', pen)))"


section \<open>Missions (app/services/missions_service.py)\<close>

definition is_admin :: "int \<Rightarrow> db \<Rightarrow> bool" where
  "is_admin tg_id d =
     (case find (\<lambda>u. u_tg_id u = tg_id) (users d) of None \<Rightarrow> False | Some row \<Rightarrow> u_is_admin row)"

definition update_mission :: "int \<Rightarrow> (mission_row \<Rightarrow> mission_row) \<Rightarrow> db \<Rightarrow> db" where
  \<comment> \<open>\<open>UPDATE missions SET ... WHERE id=?\<close>.\<close>
  "update_mission mid f d = d\<lparr>missions := map (\<lambda>m. if m_id m = mid then f m else m) (missions d)\<rparr>"

definition select_mission :: "int \<Rightarrow> db \<Rightarrow> mission_row option" where
  \<comment> \<open>\<open>SELECT ... FROM missions WHERE id=?\<close>, \<open>fetchone\<close>.\<close>
  "select_mission mid d = find (\<lambda>m. m_id m = mid) (missions d)"

definition set_status :: "int \<Rightarrow> string \<Rightarrow> db \<Rightarrow> db" where
  "set_status mission_id status d = update_mission mission_id (\<lambda>m. m\<lparr>m_status := status\<rparr>) d"

definition add_event :: "int \<Rightarrow> string \<Rightarrow> (string \<times> jval) list \<Rightarrow> db \<Rightarrow> db" where
  "add_event now kind payload d =
     d\<lparr>events := events d @ [\<lparr>e_kind = kind, e_payload = payload, e_created_at = now\<rparr>]\<rparr>"

definition mark_done :: "int \<Rightarrow> int \<Rightarrow> int \<Rightarrow> db \<Rightarrow> db" where
  "mark_done now mission_id actor_tg_id d =
     add_event now ''done_sent'' [(''mission_id'', JInt mission_id), (''actor_tg_id'', JInt actor_tg_id)]
       (set_status mission_id ''REVIEW'' d)"

definition get_assignees_tg :: "int \<Rightarrow> db \<Rightarrow> int list" where
  "get_assignees_tg mission_id d =
     map a_assignee_tg_id (filter (\<lambda>a. a_mission_id a = mission_id) (assignments d))"

definition set_reminder_stage :: "int \<Rightarrow> string \<Rightarrow> db \<Rightarrow> db" where
  "set_reminder_stage mission_id stage d =
     update_mission mission_id (\<lambda>m. m\<lparr>m_reminder_stage := stage\<rparr>) d"

definition deadline_or :: "int option \<Rightarrow> int \<Rightarrow> int" where
  \<comment> \<open>\<open>int(x or dflt)\<close> on a nullable integer column: NULL and 0 are both falsy.\<close>
  "deadline_or x dflt = (case x of None \<Rightarrow> dflt | Some t \<Rightarrow> if t = 0 then dflt else t)"

definition postpone_one_day :: "int \<Rightarrow> int \<Rightarrow> int \<Rightarrow> db \<Rightarrow> py_error + (db \<times> bool \<times> int option)" where
  "postpone_one_day now mission_id by_tg_id d =
     (case select_mission mission_id d of
        None \<Rightarrow> Inr (d, False, None)
      | Some m \<Rightarrow>
          if m_extension_count m \<ge> 1 then Inr (d, False, None)
          else
            let base = deadline_or (m_deadline_ts m) now;
                new_deadline = base + 24 * 3600;
                d1 = update_mission mission_id
                       (\<lambda>r. r\<lparr>m_deadline_ts := Some new_deadline, m_extension_count := 1,
                               m_reminder_stage := []\<rparr>) d
            in res_bind (add_karma_each now (get_assignees_tg mission_id d1) (-1)
                           (''Prodlenie dedlayna na sutki'', []) d1) (\<lambda>d2.
                 Inr (add_event now ''postpone_1d''
                        [(''mission_id'', JInt mission_id), (''by_tg_id'', JInt by_tg_id),
                         (''new_deadline'', JInt new_deadline)] d2,
                      True, Some new_deadline)))"

definition postpone_days :: "int \<Rightarrow> int \<Rightarrow> int \<Rightarrow> int \<Rightarrow> int \<Rightarrow> db \<Rightarrow> py_error + (db \<times> bool \<times> int option)" where
  "postpone_days now mission_id days0 by_tg_id penalty d =
     (let days = clamp 1 3 (if days0 = 0 then 1 else days0)
      in case select_mission mission_id d of
           None \<Rightarrow> Inr (d, False, None)
         | Some m \<Rightarrow>
             let base = deadline_or (m_deadline_ts m) now;
                 new_deadline = base + days * 24 * 3600;
                 d1 = update_mission mission_id
                        (\<lambda>r. r\<lparr>m_deadline_ts := Some new_deadline,
                                m_extension_count := m_extension_count r + 1,
                                m_reminder_stage := []\<rparr>) d
             in res_bind (if penalty \<noteq> 0
                          then add_karma_each now (get_assignees_tg mission_id d1) penalty
                                 (''Perenos dedlayna na {days} dn.'', [days]) d1
                          else Inr d1) (\<lambda>d2.
                  Inr (add_event now ''postpone_days''
                         [(''mission_id'', JInt mission_id), (''by_tg_id'', JInt by_tg_id),
                          (''days'', JInt days), (''new_deadline'', JInt new_deadline),
                          (''penalty'', JInt penalty)] d2,
                       True, Some new_deadline)))"

definition mark_overdue_and_penalize :: "int \<Rightarrow> int \<Rightarrow> db \<Rightarrow> py_error + (db \<times> int)" where
  "mark_overdue_and_penalize now mission_id d =
     (case select_mission mission_id d of
        None \<Rightarrow> Inr (d, 0)
      | Some m \<Rightarrow>
          let ext = m_extension_count m;
              penalty = (if ext \<ge> 1 then -4 else -3)
          in res_bind (add_karma_each now (get_assignees_tg mission_id d) penalty
                         (''Prosrochka missii'', []) d) (\<lambda>d1.
               let d2 = update_mission mission_id
                          (\<lambda>r. r\<lparr>m_status := ''OVERDUE'', m_reminder_stage := ''overdue''\<rparr>) d1
               in Inr (add_event now ''overdue''
                         [(''mission_id'', JInt mission_id), (''penalty'', JInt penalty)] d2,
                       penalty)))"

definition approve_report :: "int \<Rightarrow> int \<Rightarrow> int \<Rightarrow> db \<Rightarrow> py_error + (db \<times> int)" where
  "approve_report now mid reviewer_tg d =
     (case select_mission mid d of
        None \<Rightarrow> Inr (d, 0)
      | Some m \<Rightarrow>
          let diff = (if m_difficulty m = 0 then 1 else m_difficulty m);
              ass = get_assignees_tg mid d
          in res_bind (add_karma_each now ass diff (''Otchet prinyat'', []) d) (\<lambda>d1.
               let d2 = update_mission mid
                          (\<lambda>r. r\<lparr>m_status := ''DONE'', m_closed_at := Some now\<rparr>) d1
               in Inr (add_event now ''review_approved''
                         [(''mission_id'', JInt mid), (''by'', JInt reviewer_tg), (''bonus'', JInt diff)] d2,
                       diff)))"

definition reject_report :: "int \<Rightarrow> int \<Rightarrow> int \<Rightarrow> string \<Rightarrow> db \<Rightarrow> db" where
  "reject_report now mid reviewer_tg rsn d =
     add_event now ''review_rejected''
       [(''mission_id'', JInt mid), (''by'', JInt reviewer_tg), (''reason'', JStr rsn)]
       (set_status mid ''REWORK'' d)"


section \<open>Reminder sweep (app/services/reminders.py)\<close>

text \<open>
  A message is kept by what it says: the reminder of a stage, or the overdue notice with
  its penalty. The outbox lists the sends in order, each with its recipient chat;
  \<open>_send_dm\<close> and \<open>_notify_group\<close> swallow delivery errors, so a send never
  changes the control flow.
\<close>

datatype notice = Reminder string | Overdue_notice int

type_synonym outbox = "(int \<times> notice) list"

definition is_space_char :: "char \<Rightarrow> bool" where
  \<comment> \<open>The ASCII characters \<open>str.strip()\<close> removes.\<close>
  "is_space_char c =
     (let n = (of_char c :: nat) in (9 \<le> n \<and> n \<le> 13) \<or> (28 \<le> n \<and> n \<le> 32))"

definition strip :: "string \<Rightarrow> string" where
  "strip s = rev (dropWhile is_space_char (rev (dropWhile is_space_char s)))"

definition STAGES :: "(string \<times> int) list" where
  \<comment> \<open>\<open>(code, seconds)\<close>; the third component, the message template, is the
      \<open>Reminder code\<close> notice.\<close>
  "STAGES = [(''24h'', 24 * 3600), (''5h'', 5 * 3600), (''1h'', 1 * 3600)]"

definition stage_order :: "(string \<times> int) list" where
  "stage_order = [([], 0), (''24h'', 1), (''5h'', 2), (''1h'', 3), (''overdue'', 99)]"

definition fetch_active_missions :: "db \<Rightarrow> mission_row list" where
  "fetch_active_missions d =
     filter (\<lambda>m. m_deadline_ts m \<noteq> None
                 \<and> m_status m \<in> set [''OPEN'', ''IN_PROGRESS'', ''WAIT_REPORT'', ''REVIEW''])
       (missions d)"

definition send_dm :: "int list \<Rightarrow> notice \<Rightarrow> outbox \<Rightarrow> outbox" where
  "send_dm tg_ids text out = out @ map (\<lambda>tg. (tg, text)) tg_ids"

definition notify_group :: "int option \<Rightarrow> notice \<Rightarrow> outbox \<Rightarrow> outbox" where
  \<comment> \<open>\<open>settings.REPORT_CHAT_ID\<close> is a parameter; \<open>None\<close> and 0 are falsy.\<close>
  "notify_group chat_id text out =
     (case chat_id of None \<Rightarrow> out | Some c \<Rightarrow> if c = 0 then out else out @ [(c, text)])"

fun first_stage :: "int \<Rightarrow> int \<Rightarrow> int \<Rightarrow> (string \<times> int) list \<Rightarrow> string option" where
  \<comment> \<open>The inner loop over \<open>enumerate(STAGES, start=idx)\<close>: the code of the first
      stage whose test holds, where the loop sends, stores the stage and breaks.\<close>
  "first_stage left cur_idx idx [] = None"
| "first_stage left cur_idx idx ((code, sec) # rest) =
     (if left \<le> sec \<and> cur_idx < idx then Some code
      else first_stage left cur_idx (idx + 1) rest)"

definition remind_step :: "int option \<Rightarrow> int \<Rightarrow> mission_row \<Rightarrow> db \<times> outbox \<Rightarrow> py_error + (db \<times> outbox)" where
  \<comment> \<open>The body of the loop over the fetched rows, for the row \<open>m\<close>.\<close>
  "remind_step chat now m s =
     (let d = fst s; out = snd s;
          mid = m_id m;
          dl = deadline_or (m_deadline_ts m) 0;
          stage = strip (m_reminder_stage m);
          left = dl - now
      in if left \<le> 0 \<and> stage \<noteq> ''overdue'' then
           res_bind (mark_overdue_and_penalize now mid d) (\<lambda>r.
             let d1 = fst r; msg = Overdue_notice (snd r);
                 out1 = send_dm (get_assignees_tg mid d1) msg out;
                 out2 = notify_group chat msg out1
             in Inr (set_reminder_stage mid ''overdue'' d1, out2))
         else
           let cur_idx = dict_get stage_order stage 0
           in case first_stage left cur_idx 1 STAGES of
                None \<Rightarrow> Inr (d, out)
              | Some code \<Rightarrow>
                  Inr (set_reminder_stage mid code d,
                       send_dm (get_assignees_tg mid d) (Reminder code) out))"

fun sweep_missions :: "int option \<Rightarrow> int \<Rightarrow> mission_row list \<Rightarrow> db \<times> outbox \<Rightarrow> (db \<times> outbox) \<times> py_error option" where
  \<comment> \<open>The \<open>for\<close> loop inside \<open>try\<close>: an exception ends the loop. The store a raising
      step leaves behind is taken to be the store before that step.\<close>
  "sweep_missions chat now [] s = (s, None)"
| "sweep_missions chat now (m # ms) s =
     (case remind_step chat now m s of
        Inl e \<Rightarrow> (s, Some e)
      | Inr s' \<Rightarrow> sweep_missions chat now ms s')"

definition sweep :: "int option \<Rightarrow> int \<Rightarrow> db \<times> outbox \<Rightarrow> db \<times> outbox" where
  \<comment> \<open>One pass of \<open>start_reminders_loop\<close> at clock reading \<open>now\<close>; the
      \<open>except\<close> clause logs the exception and the loop goes to sleep.\<close>
  "sweep chat now s = fst (sweep_missions chat now (fetch_active_missions (fst s)) s)"


section \<open>Review handlers (app/handlers/ui.py)\<close>

definition clamp_pts :: "int \<Rightarrow> int" where
  \<comment> \<open>\<open>_clamp_pts\<close>: \<open>max(1, min(5, int(x or 1)))\<close>.\<close>
  "clamp_pts x = clamp 1 5 (if x = 0 then 1 else x)"

definition ui_mission_row :: "int \<Rightarrow> db \<Rightarrow> (mission_row \<times> int option) option" where
  \<comment> \<open>\<open>_mission_row\<close>: the first row of \<open>missions LEFT JOIN assignments\<close> for
      the id, that is the mission with its first assignee, if it has one.\<close>
  "ui_mission_row mid d =
     (case select_mission mid d of
        None \<Rightarrow> None
      | Some m \<Rightarrow>
          Some (m, (case get_assignees_tg mid d of [] \<Rightarrow> None | a # _ \<Rightarrow> Some a)))"

datatype store_fault = Before_commit | After_commit

definition add_karma_tg_under :: "store_fault option \<Rightarrow> int \<Rightarrow> int \<Rightarrow> int \<Rightarrow> reason \<Rightarrow> db \<Rightarrow> db \<times> py_error option" where
  \<comment> \<open>A call of \<open>add_karma_tg\<close> on a store that may fail (sqlite errors are not
      modelled elsewhere): the store after the call and the exception it raised, if
      any. A failure before the commit rolls the transaction back; a failure after it,
      in the rank recomputation, leaves the transaction in place.\<close>
  "add_karma_tg_under fault now tg_id delta rsn d =
     (case fault of
        Some Before_commit \<Rightarrow> (d, Some OperationalError)
      | Some After_commit \<Rightarrow> (ledger_tx now tg_id delta rsn d, Some OperationalError)
      | None \<Rightarrow>
          (case add_karma_tg now tg_id delta rsn d of
             Inr d' \<Rightarrow> (d', None)
           | Inl e \<Rightarrow> (ledger_tx now tg_id delta rsn d, Some e)))"

definition cb_review_approve :: "store_fault option \<Rightarrow> bool \<Rightarrow> int \<Rightarrow> int \<Rightarrow> int \<Rightarrow> db \<Rightarrow> db \<times> bool" where
  \<comment> \<open>\<open>actor\<close> is \<open>c.from_user.id\<close>, \<open>mid\<close> the id parsed from the callback data
      (0 when \<open>None\<close>); \<open>fault\<close> is the store's failure during the karma service
      call and \<open>fallback_ok\<close> whether the direct UPDATE of the fallback then succeeds.
      The result is the store and the flag \<open>awarded\<close>.\<close>
  "cb_review_approve fault fallback_ok now actor mid d =
     (if mid = 0 then (d, False)
      else case ui_mission_row mid d of
        None \<Rightarrow> (d, False)
      | Some row \<Rightarrow>
          if \<not> is_admin actor d then (d, False)
          else
            let d1 = set_status mid ''DONE'' d;
                assignee = (case snd row of None \<Rightarrow> 0 | Some a \<Rightarrow> a);
                pts = clamp_pts (m_difficulty (fst row));
                r = add_karma_tg_under fault now assignee pts (''Missiya #{mid} vypolnena'', [mid]) d1
            in case snd r of
                 None \<Rightarrow> (fst r, True)
               | Some e \<Rightarrow>
                   if fallback_ok
                   then ((fst r)\<lparr>users := map (\<lambda>u. if u_tg_id u = assignee
                                                     then u\<lparr>u_karma := u_karma u + pts\<rparr> else u)
                                               (users (fst r))\<rparr>, True)
                   else (fst r, False))"

definition take_reject_reason :: "int \<Rightarrow> int \<Rightarrow> int option \<Rightarrow> db \<Rightarrow> py_error + db" where
  \<comment> \<open>\<open>actor\<close> is \<open>m.from_user.id\<close>; \<open>pending\<close> is the value the actor's state
      holds under \<open>await_reject_reason_for_mid\<close> (the state itself, kept in the
      settings table, is not modelled).\<close>
  "take_reject_reason now actor pending d =
     (case pending of
        None \<Rightarrow> Inr d
      | Some mid \<Rightarrow>
          if mid = 0 then Inr d
          else if \<not> is_admin actor d then Inr d
          else case ui_mission_row mid d of
            None \<Rightarrow> Inr d
          | Some row \<Rightarrow>
              let assignee = (case snd row of None \<Rightarrow> 0 | Some a \<Rightarrow> a);
                  d1 = set_status mid ''REWORK'' d
              in res_bind (postpone_days now mid 1 assignee 0 d1) (\<lambda>r. Inr (fst r)))"


section \<open>Vocabulary of the properties\<close>

text \<open>
  The balance sheet of a store pairs each user row's \<open>tg_id\<close> with its stored karma;
  the sum of a log for a \<open>tg_id\<close> adds the deltas of the entries recorded for it. The
  ledger is consistent when every stored karma equals the sum of the log for its row.
\<close>

definition balances :: "db \<Rightarrow> (int \<times> int) list" where
  "balances d = map (\<lambda>u. (u_tg_id u, u_karma u)) (users d)"

definition credit :: "int \<Rightarrow> int \<Rightarrow> (int \<times> int) list \<Rightarrow> (int \<times> int) list" where
  "credit tg delta bs = map (\<lambda>b. (fst b, if fst b = tg then snd b + delta else snd b)) bs"

definition log_entry :: "int \<Rightarrow> int \<Rightarrow> reason \<Rightarrow> int \<Rightarrow> karma_log_row" where
  "log_entry now delta rsn tg = \<lparr>k_tg_id = tg, k_delta = delta, k_reason = rsn, k_created_at = now\<rparr>"

definition log_sum :: "karma_log_row list \<Rightarrow> int \<Rightarrow> int" where
  "log_sum lg tg = sum_list (map k_delta (filter (\<lambda>e. k_tg_id e = tg) lg))"

definition ledger_consistent :: "db \<Rightarrow> bool" where
  "ledger_consistent d = list_all (\<lambda>b. snd b = log_sum (karma_log d) (fst b)) (balances d)"

text \<open>
  The operations that touch karma, as the steps of a run. Each constructor carries the
  arguments of the call, the clock reading first. \<open>Review_approve\<close> is the approve
  handler on a store that does not fail, \<open>Reminder_sweep\<close> one pass of the reminder
  loop.
\<close>

datatype ledger_op =
    Add_karma int int int reason
  | Reset_all
  | Decline_penalty int int int bool
  | Approve_report int int int
  | Mark_overdue int int
  | Postpone_days int int int int int
  | Postpone_one_day int int int
  | Review_approve int int int
  | Reject_reason int int "int option"
  | Reminder_sweep "int option" int

fun run_op :: "ledger_op \<Rightarrow> db \<Rightarrow> py_error + db" where
  "run_op (Add_karma now tg delta rsn) d = add_karma_tg now tg delta rsn d"
| "run_op Reset_all d = Inr (reset_all_karma d)"
| "run_op (Decline_penalty now tg difficulty household) d =
     res_bind (apply_decline_penalty now tg difficulty household d) (\<lambda>r. Inr (fst r))"
| "run_op (Approve_report now mid reviewer) d =
     res_bind (approve_report now mid reviewer d) (\<lambda>r. Inr (fst r))"
| "run_op (Mark_overdue now mid) d =
     res_bind (mark_overdue_and_penalize now mid d) (\<lambda>r. Inr (fst r))"
| "run_op (Postpone_days now mid days by_tg penalty) d =
     res_bind (postpone_days now mid days by_tg penalty d) (\<lambda>r. Inr (fst r))"
| "run_op (Postpone_one_day now mid by_tg) d =
     res_bind (postpone_one_day now mid by_tg d) (\<lambda>r. Inr (fst r))"
| "run_op (Review_approve now actor mid) d = Inr (fst (cb_review_approve None True now actor mid d))"
| "run_op (Reject_reason now actor pending) d = take_reject_reason now actor pending d"
| "run_op (Reminder_sweep chat now) d = Inr (fst (sweep chat now (d, [])))"

fun run_ops :: "ledger_op list \<Rightarrow> db \<Rightarrow> py_error + db" where
  "run_ops [] d = Inr d"
| "run_ops (x # xs) d = res_bind (run_op x d) (run_ops xs)"

text \<open>
  A small store for the concrete runs: the admin 1, the members 7 and 8, and mission 1
  of difficulty 3, under review, due at 100000 and assigned to 7. In the second store
  the mission is assigned to 7 and to 8.
\<close>

definition example_mission :: mission_row where
  "example_mission =
     \<lparr>m_id = 1, m_author_tg_id = 1, m_deadline_ts = Some 100000, m_difficulty = 3,
      m_status = ''REVIEW'', m_reminder_stage = [], m_extension_count = 0, m_closed_at = None\<rparr>"

definition example_users :: "user_row list" where
  "example_users =
     [\<lparr>u_tg_id = 1, u_karma = 0, u_rank = ''Brodyaga'', u_is_admin = True\<rparr>,
      \<lparr>u_tg_id = 7, u_karma = 0, u_rank = ''Brodyaga'', u_is_admin = False\<rparr>,
      \<lparr>u_tg_id = 8, u_karma = 0, u_rank = ''Brodyaga'', u_is_admin = False\<rparr>]"

definition example_db :: db where
  "example_db =
     \<lparr>users = example_users, missions = [example_mission],
      assignments = [\<lparr>a_mission_id = 1, a_assignee_tg_id = 7\<rparr>],
      events = [], karma_log = []\<rparr>"

definition example_db_pair :: db where
  "example_db_pair =
     example_db\<lparr>assignments := [\<lparr>a_mission_id = 1, a_assignee_tg_id = 7\<rparr>,
                               \<lparr>a_mission_id = 1, a_assignee_tg_id = 8\<rparr>]\<rparr>"


text \<open>
  The reminder sweep, row by row. A fetched row is stale when its deadline is reached
  and its stage, stripped, is not yet \<open>overdue\<close>. \<open>settle_by now m r\<close> is what
  the loop body, run on the fetched values \<open>m\<close>, writes to a row \<open>r\<close> with that id;
  \<open>settle now m\<close> is the row \<open>m\<close> after its own step. The overdue event and the
  log entries are what \<open>mark_overdue_and_penalize\<close> appends for the row.
\<close>

definition stale :: "int \<Rightarrow> mission_row \<Rightarrow> bool" where
  "stale now m = (deadline_or (m_deadline_ts m) 0 - now \<le> 0 \<and> strip (m_reminder_stage m) \<noteq> ''overdue'')"

definition overdue_penalty :: "mission_row \<Rightarrow> int" where
  "overdue_penalty m = (if m_extension_count m \<ge> 1 then -4 else -3)"

definition overdue_event :: "int \<Rightarrow> mission_row \<Rightarrow> event_row" where
  "overdue_event now m =
     \<lparr>e_kind = ''overdue'',
      e_payload = [(''mission_id'', JInt (m_id m)), (''penalty'', JInt (overdue_penalty m))],
      e_created_at = now\<rparr>"

definition overdue_entries :: "int \<Rightarrow> db \<Rightarrow> mission_row \<Rightarrow> karma_log_row list" where
  "overdue_entries now d m =
     map (log_entry now (overdue_penalty m) (''Prosrochka missii'', [])) (get_assignees_tg (m_id m) d)"

definition settle_by :: "int \<Rightarrow> mission_row \<Rightarrow> mission_row \<Rightarrow> mission_row" where
  "settle_by now m r =
     (if stale now m then r\<lparr>m_status := ''OVERDUE'', m_reminder_stage := ''overdue''\<rparr>
      else case first_stage (deadline_or (m_deadline_ts m) 0 - now)
                  (dict_get stage_order (strip (m_reminder_stage m)) 0) 1 STAGES of
             None \<Rightarrow> r
           | Some code \<Rightarrow> r\<lparr>m_reminder_stage := code\<rparr>)"





text \<open>
  Three texts for the concrete runs: \<open>call the client\<close>,
  \<open>full track 2 reels\<close>, and \<open>miks 3 tizera\<close> in Cyrillic (a mix phrase and
  a count of three teasers).
\<close>

definition call_the_client :: ustr where
  "call_the_client = [99, 97, 108, 108, 32, 116, 104, 101, 32, 99, 108, 105, 101, 110, 116]"


















section \<open>Properties\<close>

subsection \<open>Ranks\<close>

lemma RANK_NAMES_length: "length RANK_NAMES = 11"
  by (simp add: RANK_NAMES_def)

lemma py_index_in_range:
  assumes "0 \<le> i" and "i < int (length xs)"
  shows "py_index xs i = Inr (xs ! nat i)"
  using assms by (simp add: py_index_def)

lemma py_index_last:
  assumes "xs \<noteq> []"
  shows "py_index xs (-1) = Inr (xs ! (length xs - 1))"
proof -
  have "nat (int (length xs) - 1) = length xs - 1" by simp
  moreover have "Suc 0 \<le> length xs" using assms by (cases xs) simp_all
  ultimately show ?thesis by (simp add: py_index_def)
qed

lemma rank_for_value:
  "rank_for k = Inr (if k < 0 then NEGATIVE_RANK else RANK_NAMES ! nat (min (k div 100) 10))"
proof (cases "k < 0")
  case True
  then show ?thesis by (simp add: rank_for_def)
next
  case nonneg: False
  show ?thesis
  proof (cases "11 \<le> k div 100")
    case True
    have "RANK_NAMES \<noteq> []" by (simp add: RANK_NAMES_def)
    from py_index_last [OF this] True nonneg show ?thesis
      by (simp add: rank_for_def RANK_NAMES_length Let_def min_def)
  next
    case False
    with nonneg have rng: "0 \<le> k div 100" "k div 100 < int (length RANK_NAMES)"
      by (simp_all add: RANK_NAMES_length pos_imp_zdiv_nonneg_iff)
    from py_index_in_range [OF rng] False nonneg show ?thesis
      by (simp add: rank_for_def RANK_NAMES_length Let_def min_def)
  qed
qed

text \<open>
  Claim C7. \<open>rank_for\<close> is a function of the karma integer alone and never raises: below
  zero it returns the negative rank, from zero on it returns the entry of the rank table
  at index \<open>karma div 100\<close> (floor division), the index being clamped to the last
  entry. The table has eleven names: indices 0 to 9 cover 0..999 and index 10, the top
  rank, covers everything from 1000 on. The negative rank is not a name of the table.
\<close>

theorem rank_for_table:
  "rank_for k =
     Inr (if k < 0 then NEGATIVE_RANK else RANK_NAMES ! nat (min (k div 100) 10))
   \<and> length RANK_NAMES = 11 \<and> distinct RANK_NAMES \<and> NEGATIVE_RANK \<notin> set RANK_NAMES"
proof -
  have "distinct RANK_NAMES \<and> NEGATIVE_RANK \<notin> set RANK_NAMES"
    by (simp add: RANK_NAMES_def NEGATIVE_RANK_def)
  with rank_for_value [of k] show ?thesis by (simp add: RANK_NAMES_length)
qed

subsection \<open>Postponement tiers\<close>

text \<open>
  Claim C8. The postponement penalty is 0 for one day, -1 for two days and -2 for three
  days, so it does not increase with the number of days; the postponement button of
  \<open>cb_postpone_days\<close> prices every day count it accepts with the same table.
\<close>

theorem postpone_penalty_tiers:
  "postpone_penalty 1 = 0 \<and> postpone_penalty 2 = -1 \<and> postpone_penalty 3 = -2
   \<and> postpone_penalty 1 \<ge> postpone_penalty 2 \<and> postpone_penalty 2 \<ge> postpone_penalty 3
   \<and> snd (cb_postpone_days_tier n) = postpone_penalty (fst (cb_postpone_days_tier n))"
proof -
  have tiers: "postpone_penalty 1 = 0" "postpone_penalty 2 = -1" "postpone_penalty 3 = -2"
    by (simp_all add: postpone_penalty_def dict_get_def POSTPONE_PENALTIES_def)
  have "clamp 1 3 (int n) = 1 \<or> clamp 1 3 (int n) = 2 \<or> clamp 1 3 (int n) = 3"
    by (auto simp: clamp_def max_def min_def)
  then have "snd (cb_postpone_days_tier n) = postpone_penalty (fst (cb_postpone_days_tier n))"
    by (auto simp: cb_postpone_days_tier_def Let_def tiers)
  with tiers show ?thesis by simp
qed

subsection \<open>The ledger\<close>

lemma recompute_rank_by_tg_effect:
  "\<exists>d'. recompute_rank_by_tg tg d = Inr d'
        \<and> balances d' = balances d \<and> karma_log d' = karma_log d
        \<and> missions d' = missions d \<and> assignments d' = assignments d \<and> events d' = events d
        \<and> map u_is_admin (users d') = map u_is_admin (users d)"
  by (auto simp: recompute_rank_by_tg_def res_bind_def rank_for_value balances_def 
      split: option.splits)

lemma add_karma_tg_effect:
  "\<exists>d'. add_karma_tg now tg delta rsn d = Inr d'
        \<and> balances d' = credit tg delta (balances d)
        \<and> karma_log d' = karma_log d @ [log_entry now delta rsn tg]
        \<and> missions d' = missions d \<and> assignments d' = assignments d \<and> events d' = events d
        \<and> map u_is_admin (users d') = map u_is_admin (users d)"
proof -
  let ?d1 = "ledger_tx now tg delta rsn d"
  obtain d' where r: "recompute_rank_by_tg tg ?d1 = Inr d'"
    "balances d' = balances ?d1" "karma_log d' = karma_log ?d1"
    "missions d' = missions ?d1" "assignments d' = assignments ?d1" "events d' = events ?d1"
    "map u_is_admin (users d') = map u_is_admin (users ?d1)"
    using recompute_rank_by_tg_effect [of tg ?d1] by blast
  have "balances ?d1 = credit tg delta (balances d)"
    by (simp add: ledger_tx_def balances_def credit_def)
  moreover have "map u_is_admin (users ?d1) = map u_is_admin (users d)"
    by (simp add: ledger_tx_def)
  ultimately show ?thesis using r
    by (simp add: add_karma_tg_def ledger_tx_def log_entry_def)
qed

lemma credit_credit_count:
  "credit tg delta (map (\<lambda>b. (fst b, snd b + delta * int (count_list tgs (fst b)))) bs)
   = map (\<lambda>b. (fst b, snd b + delta * int (count_list (tgs @ [tg]) (fst b)))) bs"
  by (simp add: credit_def algebra_simps)

lemma add_karma_each_effect:
  "\<exists>d'. add_karma_each now tgs delta rsn d = Inr d'
        \<and> balances d' = map (\<lambda>b. (fst b, snd b + delta * int (count_list tgs (fst b)))) (balances d)
        \<and> karma_log d' = karma_log d @ map (log_entry now delta rsn) tgs
        \<and> missions d' = missions d \<and> assignments d' = assignments d \<and> events d' = events d
        \<and> map u_is_admin (users d') = map u_is_admin (users d)"
proof (induction tgs arbitrary: d)
  case Nil
  then show ?case by simp
next
  case (Cons tg tgs)
  obtain d1 where s1: "add_karma_tg now tg delta rsn d = Inr d1"
    "balances d1 = credit tg delta (balances d)"
    "karma_log d1 = karma_log d @ [log_entry now delta rsn tg]"
    "missions d1 = missions d" "assignments d1 = assignments d" "events d1 = events d"
    "map u_is_admin (users d1) = map u_is_admin (users d)"
    using add_karma_tg_effect [of now tg delta rsn d] by blast
  obtain d' where s2: "add_karma_each now tgs delta rsn d1 = Inr d'"
    "balances d' = map (\<lambda>b. (fst b, snd b + delta * int (count_list tgs (fst b)))) (balances d1)"
    "karma_log d' = karma_log d1 @ map (log_entry now delta rsn) tgs"
    "missions d' = missions d1" "assignments d' = assignments d1" "events d' = events d1"
    "map u_is_admin (users d') = map u_is_admin (users d1)"
    using Cons.IH [of d1] by blast
  have "balances d' = map (\<lambda>b. (fst b, snd b + delta * int (count_list (tg # tgs) (fst b)))) (balances d)"
    by (simp add: s2(2) s1(2) credit_def algebra_simps)
  with s1 s2 show ?case by (simp add: res_bind_def)
qed

lemma log_sum_append: "log_sum (lg @ lg') tg = log_sum lg tg + log_sum lg' tg"
  by (simp add: log_sum_def)

lemma log_sum_entries:
  "log_sum (map (log_entry now delta rsn) tgs) tg = delta * int (count_list tgs tg)"
  by (induction tgs) (simp_all add: log_sum_def log_entry_def algebra_simps)

lemma ledger_consistent_credited:
  assumes "ledger_consistent d"
    and "balances d' = map (\<lambda>b. (fst b, snd b + delta * int (count_list tgs (fst b)))) (balances d)"
    and "karma_log d' = karma_log d @ map (log_entry now delta rsn) tgs"
  shows "ledger_consistent d'"
  using assms
  by (simp add: ledger_consistent_def list_all_iff log_sum_append log_sum_entries)

lemma ledger_consistent_frame:
  assumes "ledger_consistent d" and "users d' = users d" and "karma_log d' = karma_log d"
  shows "ledger_consistent d'"
  using assms by (simp add: ledger_consistent_def balances_def)


lemma balances_frame: "users d' = users d \<Longrightarrow> balances d' = balances d"
  by (simp add: balances_def)

lemma mark_overdue_effect:
  assumes "select_mission mid d = Some m"
  defines "pen \<equiv> (if m_extension_count m \<ge> 1 then -4 else -3 :: int)"
  shows "\<exists>d'. mark_overdue_and_penalize now mid d = Inr (d', pen)
     \<and> missions d' = map (\<lambda>r. if m_id r = mid
                               then r\<lparr>m_status := ''OVERDUE'', m_reminder_stage := ''overdue''\<rparr>
                               else r) (missions d)
     \<and> events d' = events d @ [\<lparr>e_kind = ''overdue'',
            e_payload = [(''mission_id'', JInt mid), (''penalty'', JInt pen)], e_created_at = now\<rparr>]
     \<and> karma_log d' = karma_log d @ map (log_entry now pen (''Prosrochka missii'', [])) (get_assignees_tg mid d)
     \<and> balances d' = map (\<lambda>b. (fst b, snd b + pen * int (count_list (get_assignees_tg mid d) (fst b))))
                        (balances d)
     \<and> assignments d' = assignments d
     \<and> map u_is_admin (users d') = map u_is_admin (users d)"
proof -
  obtain d1 where s1: "add_karma_each now (get_assignees_tg mid d) pen (''Prosrochka missii'', []) d = Inr d1"
    "balances d1 = map (\<lambda>b. (fst b, snd b + pen * int (count_list (get_assignees_tg mid d) (fst b)))) (balances d)"
    "karma_log d1 = karma_log d @ map (log_entry now pen (''Prosrochka missii'', [])) (get_assignees_tg mid d)"
    "missions d1 = missions d" "assignments d1 = assignments d" "events d1 = events d"
    "map u_is_admin (users d1) = map u_is_admin (users d)"
    using add_karma_each_effect [of now "get_assignees_tg mid d" pen "(''Prosrochka missii'', [])" d]
    by blast
  show ?thesis
    using assms(1) s1
    by (simp add: mark_overdue_and_penalize_def Let_def res_bind_def pen_def [symmetric]
        update_mission_def add_event_def balances_def)
qed

lemma approve_report_effect:
  assumes "select_mission mid d = Some m"
  defines "diff \<equiv> (if m_difficulty m = 0 then 1 else m_difficulty m)"
  shows "\<exists>d'. approve_report now mid reviewer d = Inr (d', diff)
     \<and> missions d' = map (\<lambda>r. if m_id r = mid
                               then r\<lparr>m_status := ''DONE'', m_closed_at := Some now\<rparr>
                               else r) (missions d)
     \<and> events d' = events d @ [\<lparr>e_kind = ''review_approved'',
            e_payload = [(''mission_id'', JInt mid), (''by'', JInt reviewer), (''bonus'', JInt diff)],
            e_created_at = now\<rparr>]
     \<and> karma_log d' = karma_log d @ map (log_entry now diff (''Otchet prinyat'', [])) (get_assignees_tg mid d)
     \<and> balances d' = map (\<lambda>b. (fst b, snd b + diff * int (count_list (get_assignees_tg mid d) (fst b))))
                        (balances d)
     \<and> assignments d' = assignments d
     \<and> map u_is_admin (users d') = map u_is_admin (users d)"
proof -
  obtain d1 where s1: "add_karma_each now (get_assignees_tg mid d) diff (''Otchet prinyat'', []) d = Inr d1"
    "balances d1 = map (\<lambda>b. (fst b, snd b + diff * int (count_list (get_assignees_tg mid d) (fst b)))) (balances d)"
    "karma_log d1 = karma_log d @ map (log_entry now diff (''Otchet prinyat'', [])) (get_assignees_tg mid d)"
    "missions d1 = missions d" "assignments d1 = assignments d" "events d1 = events d"
    "map u_is_admin (users d1) = map u_is_admin (users d)"
    using add_karma_each_effect [of now "get_assignees_tg mid d" diff "(''Otchet prinyat'', [])" d]
    by blast
  show ?thesis
    using assms(1) s1
    by (simp add: approve_report_def Let_def res_bind_def diff_def [symmetric]
        update_mission_def add_event_def balances_def)
qed


lemma ledger_consistent_update_mission [simp]:
  "ledger_consistent (update_mission mid f d) = ledger_consistent d"
  by (simp add: ledger_consistent_def balances_def update_mission_def)

lemma ledger_consistent_add_event [simp]:
  "ledger_consistent (add_event now kind payload d) = ledger_consistent d"
  by (simp add: ledger_consistent_def balances_def add_event_def)

lemma ledger_consistent_set_status [simp]:
  "ledger_consistent (set_status mid st d) = ledger_consistent d"
  by (simp add: set_status_def)

lemma ledger_consistent_set_reminder_stage [simp]:
  "ledger_consistent (set_reminder_stage mid st d) = ledger_consistent d"
  by (simp add: set_reminder_stage_def)

lemma add_karma_each_consistent:
  assumes "ledger_consistent d"
  shows "\<exists>d'. add_karma_each now tgs delta rsn d = Inr d' \<and> ledger_consistent d'"
  using add_karma_each_effect [of now tgs delta rsn d] ledger_consistent_credited [OF assms]
  by blast

lemma add_karma_tg_consistent:
  assumes "ledger_consistent d"
  shows "\<exists>d'. add_karma_tg now tg delta rsn d = Inr d' \<and> ledger_consistent d'"
  using add_karma_each_consistent [OF assms, of now "[tg]" delta rsn]
  by (auto simp: res_bind_def split: sum.splits)

lemma reset_all_karma_consistent: "ledger_consistent (reset_all_karma d)"
  by (simp add: ledger_consistent_def balances_def reset_all_karma_def log_sum_def list_all_iff)

lemma apply_decline_penalty_consistent:
  assumes "ledger_consistent d"
  shows "\<exists>r. apply_decline_penalty now tg difficulty household d = Inr r \<and> ledger_consistent (fst r)"
proof -
  let ?pen = "(if household then (if difficulty \<le> 1 then -3 else if difficulty = 2 then -4 else -5) else -2 :: int)"
  obtain d' where "add_karma_tg now tg ?pen (''Otkaz ot missii'', []) d = Inr d'" "ledger_consistent d'"
    using add_karma_tg_consistent [OF assms] by blast
  then show ?thesis
    by (simp add: apply_decline_penalty_def Let_def res_bind_def)
qed

lemma approve_report_consistent:
  assumes "ledger_consistent d"
  shows "\<exists>r. approve_report now mid reviewer d = Inr r \<and> ledger_consistent (fst r)"
proof (cases "select_mission mid d")
  case None
  with assms show ?thesis by (simp add: approve_report_def)
next
  case (Some m)
  obtain d' where "approve_report now mid reviewer d
        = Inr (d', if m_difficulty m = 0 then 1 else m_difficulty m)" "ledger_consistent d'"
    using approve_report_effect [OF Some, of now reviewer] ledger_consistent_credited [OF assms]
    by blast
  then show ?thesis by simp
qed

lemma mark_overdue_consistent:
  assumes "ledger_consistent d"
  shows "\<exists>r. mark_overdue_and_penalize now mid d = Inr r \<and> ledger_consistent (fst r)"
proof (cases "select_mission mid d")
  case None
  with assms show ?thesis by (simp add: mark_overdue_and_penalize_def)
next
  case (Some m)
  obtain d' where "mark_overdue_and_penalize now mid d
        = Inr (d', if m_extension_count m \<ge> 1 then -4 else -3)" "ledger_consistent d'"
    using mark_overdue_effect [OF Some, of now] ledger_consistent_credited [OF assms]
    by blast
  then show ?thesis by simp
qed

lemma postpone_days_consistent:
  assumes "ledger_consistent d"
  shows "\<exists>r. postpone_days now mid days by_tg penalty d = Inr r \<and> ledger_consistent (fst r)"
proof (cases "select_mission mid d")
  case None
  with assms show ?thesis by (simp add: postpone_days_def)
next
  case (Some m)
  define d1 where "d1 = update_mission mid
      (\<lambda>r. r\<lparr>m_deadline_ts := Some (deadline_or (m_deadline_ts m) now
                   + clamp 1 3 (if days = 0 then 1 else days) * 24 * 3600),
              m_extension_count := m_extension_count r + 1, m_reminder_stage := []\<rparr>) d"
  have c1: "ledger_consistent d1" using assms by (simp add: d1_def)
  show ?thesis
  proof (cases "penalty = 0")
    case True
    with Some c1 show ?thesis
      by (simp add: postpone_days_def Let_def res_bind_def d1_def)
  next
    case False
    obtain d2 where "add_karma_each now (get_assignees_tg mid d1) penalty
        (''Perenos dedlayna na {days} dn.'', [clamp 1 3 (if days = 0 then 1 else days)]) d1 = Inr d2"
      "ledger_consistent d2"
      using add_karma_each_consistent [OF c1] by blast
    with Some False show ?thesis
      by (simp add: postpone_days_def Let_def res_bind_def d1_def)
  qed
qed

lemma postpone_one_day_consistent:
  assumes "ledger_consistent d"
  shows "\<exists>r. postpone_one_day now mid by_tg d = Inr r \<and> ledger_consistent (fst r)"
proof (cases "select_mission mid d")
  case None
  with assms show ?thesis by (simp add: postpone_one_day_def)
next
  case (Some m)
  define d1 where "d1 = update_mission mid
      (\<lambda>r. r\<lparr>m_deadline_ts := Some (deadline_or (m_deadline_ts m) now + 24 * 3600),
              m_extension_count := 1, m_reminder_stage := []\<rparr>) d"
  have c1: "ledger_consistent d1" using assms by (simp add: d1_def)
  obtain d2 where "add_karma_each now (get_assignees_tg mid d1) (-1)
        (''Prodlenie dedlayna na sutki'', []) d1 = Inr d2" "ledger_consistent d2"
    using add_karma_each_consistent [OF c1] by blast
  with Some assms show ?thesis
    by (auto simp: postpone_one_day_def Let_def res_bind_def d1_def)
qed

lemma add_karma_tg_under_None_consistent:
  assumes "ledger_consistent d"
  shows "ledger_consistent (fst (add_karma_tg_under None now tg delta rsn d))
         \<and> snd (add_karma_tg_under None now tg delta rsn d) = None"
proof -
  obtain d' where "add_karma_tg now tg delta rsn d = Inr d'" "ledger_consistent d'"
    using add_karma_tg_consistent [OF assms] by blast
  then show ?thesis by (simp add: add_karma_tg_under_def)
qed

lemma cb_review_approve_consistent:
  assumes "ledger_consistent d"
  shows "ledger_consistent (fst (cb_review_approve None fallback_ok now actor mid d))"
proof (cases "mid = 0 \<or> ui_mission_row mid d = None \<or> \<not> is_admin actor d")
  case True
  with assms show ?thesis
    by (auto simp: cb_review_approve_def split: option.splits)
next
  case False
  then obtain row where row: "ui_mission_row mid d = Some row" by auto
  define a where "a = (case snd row of None \<Rightarrow> 0 | Some a \<Rightarrow> a)"
  have "ledger_consistent (set_status mid ''DONE'' d)" using assms by simp
  from add_karma_tg_under_None_consistent [OF this, of now a "clamp_pts (m_difficulty (fst row))"
        "(''Missiya #{mid} vypolnena'', [mid])"]
  show ?thesis using False row
    by (simp add: cb_review_approve_def Let_def a_def)
qed

lemma take_reject_reason_consistent:
  assumes "ledger_consistent d"
  shows "\<exists>d'. take_reject_reason now actor pending d = Inr d' \<and> ledger_consistent d'"
proof (cases "pending = None \<or> pending = Some 0 \<or> \<not> is_admin actor d
              \<or> ui_mission_row (the pending) d = None")
  case True
  with assms show ?thesis
    by (auto simp: take_reject_reason_def split: option.splits)
next
  case False
  then obtain mid where p1: "pending = Some mid" "mid \<noteq> 0" "is_admin actor d"
    by (cases pending) auto
  with False obtain row where p2: "ui_mission_row mid d = Some row"
    by (cases "ui_mission_row mid d") auto
  note p = p1 p2
  define a where "a = (case snd row of None \<Rightarrow> 0 | Some a \<Rightarrow> a)"
  have "ledger_consistent (set_status mid ''REWORK'' d)" using assms by simp
  from postpone_days_consistent [OF this, of now mid 1 a 0]
  obtain r where "postpone_days now mid 1 a 0 (set_status mid ''REWORK'' d) = Inr r"
     "ledger_consistent (fst r)" by blast
  with p show ?thesis
    by (simp add: take_reject_reason_def Let_def a_def res_bind_def)
qed


lemma remind_step_consistent:
  assumes "ledger_consistent (fst s)"
  shows "\<exists>s'. remind_step chat now m s = Inr s' \<and> ledger_consistent (fst s')"
proof (cases "deadline_or (m_deadline_ts m) 0 - now \<le> 0 \<and> strip (m_reminder_stage m) \<noteq> ''overdue''")
  case True
  obtain r where "mark_overdue_and_penalize now (m_id m) (fst s) = Inr r" "ledger_consistent (fst r)"
    using mark_overdue_consistent [OF assms] by blast
  with True show ?thesis
    by (simp add: remind_step_def Let_def res_bind_def)
next
  case False
  with assms show ?thesis
    by (cases s) (auto simp: remind_step_def Let_def split: option.splits)
qed

lemma sweep_missions_consistent:
  assumes "ledger_consistent (fst s)"
  shows "snd (sweep_missions chat now ms s) = None
         \<and> ledger_consistent (fst (fst (sweep_missions chat now ms s)))"
  using assms
proof (induction ms arbitrary: s)
  case Nil
  then show ?case by simp
next
  case (Cons m ms)
  obtain s' where "remind_step chat now m s = Inr s'" "ledger_consistent (fst s')"
    using remind_step_consistent [OF Cons.prems] by blast
  with Cons.IH [of s'] show ?case by simp
qed

lemma sweep_consistent:
  assumes "ledger_consistent d"
  shows "ledger_consistent (fst (sweep chat now (d, out)))"
  using sweep_missions_consistent [of "(d, out)" chat now "fetch_active_missions d"] assms
  by (simp add: sweep_def)

lemma run_op_consistent:
  assumes "ledger_consistent d"
  shows "\<exists>d'. run_op x d = Inr d' \<and> ledger_consistent d'"
proof (cases x)
  case (Add_karma now tg delta rsn)
  with add_karma_tg_consistent [OF assms] show ?thesis by simp
next
  case Reset_all
  with reset_all_karma_consistent show ?thesis by simp
next
  case (Decline_penalty now tg difficulty household)
  with apply_decline_penalty_consistent [OF assms, of now tg difficulty household]
  show ?thesis by (auto simp: res_bind_def)
next
  case (Approve_report now mid reviewer)
  with approve_report_consistent [OF assms, of now mid reviewer]
  show ?thesis by (auto simp: res_bind_def)
next
  case (Mark_overdue now mid)
  with mark_overdue_consistent [OF assms, of now mid]
  show ?thesis by (auto simp: res_bind_def)
next
  case (Postpone_days now mid days by_tg penalty)
  with postpone_days_consistent [OF assms, of now mid days by_tg penalty]
  show ?thesis by (auto simp: res_bind_def)
next
  case (Postpone_one_day now mid by_tg)
  with postpone_one_day_consistent [OF assms, of now mid by_tg]
  show ?thesis by (auto simp: res_bind_def)
next
  case (Review_approve now actor mid)
  with cb_review_approve_consistent [OF assms] show ?thesis by simp
next
  case (Reject_reason now actor pending)
  with take_reject_reason_consistent [OF assms] show ?thesis by simp
next
  case (Reminder_sweep chat now)
  with sweep_consistent [OF assms] show ?thesis by simp
qed

lemma run_ops_consistent:
  assumes "ledger_consistent d"
  shows "\<exists>d'. run_ops ops d = Inr d' \<and> ledger_consistent d'"
  using assms
proof (induction ops arbitrary: d)
  case Nil
  then show ?case by simp
next
  case (Cons x xs)
  obtain d1 where "run_op x d = Inr d1" "ledger_consistent d1"
    using run_op_consistent [OF Cons.prems] by blast
  with Cons.IH [of d1] show ?case by (simp add: res_bind_def)
qed

subsection \<open>The reminder sweep\<close>

lemma m_id_settle_by [simp]: "m_id (settle_by now m r) = m_id r"
  by (simp add: settle_by_def split: option.splits)




















subsection \<open>The karma ledger and its log\<close>

text \<open>
  Claim C2, as amended. From a consistent ledger, every run of the ledger operations
  (\<open>add_karma_tg\<close> with any \<open>tg_id\<close>, also one without a users row, where only
  the log grows; \<open>reset_all_karma\<close>; the decline penalty; approving a report; the
  overdue transition; both postponements; the approve and reject handlers on a store that
  does not fail; the reminder sweep) returns normally and leaves every user row's stored
  karma equal to the sum of the deltas logged for its \<open>tg_id\<close>.
\<close>

theorem ledger_log_sum_invariant:
  assumes "ledger_consistent d"
  shows "\<exists>d'. run_ops ops d = Inr d' \<and> ledger_consistent d'"
  using assms by (rule run_ops_consistent)

theorem ledger_log_sum_invariant_witness:
  "ledger_consistent example_db
   \<and> (\<exists>d'. run_ops [Add_karma 10 7 5 (''Ruchnaya korrektirovka adminom'', []),
                     Add_karma 11 99 2 (''Ruchnaya korrektirovka adminom'', []),
                     Approve_report 12 1 1, Mark_overdue 13 1, Review_approve 14 1 1]
               example_db = Inr d' \<and> ledger_consistent d')"
proof -
  have c: "ledger_consistent example_db"
    by (simp add: example_db_def example_users_def ledger_consistent_def balances_def log_sum_def)
  from ledger_log_sum_invariant [OF c] c show ?thesis by blast
qed

text \<open>
  The claim as stated fails on the approve handler's fallback: when the karma service
  raises before its commit, the handler adds the points to \<open>users.karma\<close> by a direct
  UPDATE and no log entry is written, so member 7 holds 3 points that the log does not
  account for.
\<close>

theorem approve_fallback_breaks_ledger:
  "ledger_consistent example_db
   \<and> \<not> ledger_consistent (fst (cb_review_approve (Some Before_commit) True 1000 1 1 example_db))
   \<and> balances (fst (cb_review_approve (Some Before_commit) True 1000 1 1 example_db))
       = [(1, 0), (7, 3), (8, 0)]
   \<and> karma_log (fst (cb_review_approve (Some Before_commit) True 1000 1 1 example_db)) = []"
  by code_simp

subsection \<open>Approving and rejecting a report\<close>

text \<open>
  Claim C3. The service function \<open>approve_report\<close> does what the claim says: the
  mission becomes \<open>DONE\<close>, \<open>closed_at\<close> is the clock reading, every assignee is
  credited the difficulty through the ledger and a \<open>review_approved\<close> event is logged.
  The handler behind the approve button, \<open>cb_review_approve\<close>, does not: on the store
  with mission 1 (difficulty 3) assigned to 7 and 8 it sets \<open>DONE\<close> and credits 7, but
  \<open>closed_at\<close> stays empty, no event is logged and 8 is credited nothing.
\<close>

theorem cb_review_approve_leaves_mission_open_ended:
  "(let d' = fst (cb_review_approve None True 1000 1 1 example_db_pair)
    in map m_status (missions d') = [''DONE''] \<and> map m_closed_at (missions d') = [None]
       \<and> events d' = [] \<and> balances d' = [(1, 0), (7, 3), (8, 0)]
       \<and> karma_log d' = [log_entry 1000 3 (''Missiya #{mid} vypolnena'', [1]) 7])
   \<and> (case approve_report 1000 1 1 example_db_pair of
        Inl e \<Rightarrow> False
      | Inr r \<Rightarrow> map m_status (missions (fst r)) = [''DONE'']
                \<and> map m_closed_at (missions (fst r)) = [Some 1000]
                \<and> map e_kind (events (fst r)) = [''review_approved'']
                \<and> balances (fst r) = [(1, 0), (7, 3), (8, 3)])"
  by code_simp

text \<open>
  Claim C4. No reject path does all of what the claim says. The handler that takes the
  reject reason, \<open>take_reject_reason\<close>, sets \<open>REWORK\<close> and extends the deadline by one
  day at penalty 0, but applies no rework penalty (the ledger is untouched) and logs
  \<open>postpone_days\<close>, not \<open>review_rejected\<close>. The service function \<open>reject_report\<close>
  sets \<open>REWORK\<close> and logs \<open>review_rejected\<close>, but neither applies the penalty nor
  moves the deadline. The rework penalty of the policy is -1.
\<close>

theorem take_reject_reason_applies_no_penalty:
  "(case take_reject_reason 1000 1 (Some 1) example_db of
      Inl e \<Rightarrow> False
    | Inr d' \<Rightarrow> map m_status (missions d') = [''REWORK'']
              \<and> map m_deadline_ts (missions d') = [Some (100000 + 86400)]
              \<and> map e_kind (events d') = [''postpone_days'']
              \<and> karma_log d' = [] \<and> balances d' = balances example_db)
   \<and> (let d' = reject_report 1000 1 1 ''bad'' example_db
      in map m_status (missions d') = [''REWORK'']
         \<and> map m_deadline_ts (missions d') = [Some 100000]
         \<and> map e_kind (events d') = [''review_rejected'']
         \<and> karma_log d' = [] \<and> balances d' = balances example_db)
   \<and> rework_penalty = -1"
  by code_simp

subsection \<open>The overdue transition\<close>

text \<open>
  Claim C5. For a mission the store holds, \<open>mark_overdue_and_penalize\<close> returns
  normally with the penalty -4 when the extension count is at least 1 and -3 otherwise;
  it sets the status \<open>OVERDUE\<close> (and the reminder stage \<open>overdue\<close>), appends one
  \<open>overdue\<close> event, and debits the penalty through the ledger once per assignment row
  of the mission: one log entry per row, and each user's karma changed by the penalty
  times the number of the mission's assignment rows for that user.
\<close>

theorem mark_overdue_and_penalize_transition:
  assumes "select_mission mid d = Some m"
  shows "\<exists>d'. mark_overdue_and_penalize now mid d = Inr (d', overdue_penalty m)
     \<and> overdue_penalty m = (if m_extension_count m \<ge> 1 then -4 else -3)
     \<and> missions d' = map (\<lambda>r. if m_id r = mid
                               then r\<lparr>m_status := ''OVERDUE'', m_reminder_stage := ''overdue''\<rparr>
                               else r) (missions d)
     \<and> events d' = events d @ [overdue_event now m]
     \<and> karma_log d' = karma_log d @ overdue_entries now d m
     \<and> balances d' = map (\<lambda>b. (fst b, snd b + overdue_penalty m
                              * int (count_list (get_assignees_tg mid d) (fst b)))) (balances d)
     \<and> assignments d' = assignments d"
proof -
  have "m_id m = mid"
    using assms by (auto simp: select_mission_def find_Some_iff)
  with mark_overdue_effect [OF assms, of now] show ?thesis
    by (auto simp: overdue_penalty_def overdue_event_def overdue_entries_def)
qed

theorem mark_overdue_and_penalize_transition_witness:
  "select_mission 1 example_db_pair = Some example_mission
   \<and> (\<exists>d'. mark_overdue_and_penalize 100000 1 example_db_pair = Inr (d', -3)
          \<and> map m_status (missions d') = [''OVERDUE'']
          \<and> map e_kind (events d') = [''overdue'']
          \<and> map k_delta (karma_log d') = [-3, -3]
          \<and> balances d' = [(1, 0), (7, -3), (8, -3)])"
proof -
  have h: "select_mission 1 example_db_pair = Some example_mission"
    by (simp add: select_mission_def example_db_pair_def example_db_def example_mission_def)
  have a: "get_assignees_tg 1 example_db_pair = [7, 8]"
    by (simp add: get_assignees_tg_def example_db_pair_def example_db_def)
  have p: "overdue_penalty example_mission = -3"
    by (simp add: overdue_penalty_def example_mission_def)
  from mark_overdue_and_penalize_transition [OF h, of 100000]
  obtain d' where d': "mark_overdue_and_penalize 100000 1 example_db_pair = Inr (d', -3)"
    "missions d' = map (\<lambda>r. if m_id r = 1
                               then r\<lparr>m_status := ''OVERDUE'', m_reminder_stage := ''overdue''\<rparr>
                               else r) (missions example_db_pair)"
    "events d' = events example_db_pair @ [overdue_event 100000 example_mission]"
    "karma_log d' = karma_log example_db_pair @ overdue_entries 100000 example_db_pair example_mission"
    "balances d' = map (\<lambda>b. (fst b, snd b + overdue_penalty example_mission
                              * int (count_list (get_assignees_tg 1 example_db_pair) (fst b))))
                        (balances example_db_pair)"
    unfolding p by blast
  have "map m_status (missions d') = [''OVERDUE'']"
    by (simp add: d'(2) example_db_pair_def example_db_def example_mission_def)
  moreover have "map e_kind (events d') = [''overdue'']"
    by (simp add: d'(3) example_db_pair_def example_db_def overdue_event_def)
  moreover have "map k_delta (karma_log d') = [-3, -3]"
  proof -
    have "m_id example_mission = 1" by (simp add: example_mission_def)
    moreover have "karma_log example_db_pair = []"
      by (simp add: example_db_pair_def example_db_def)
    ultimately show ?thesis
      by (simp add: d'(4) overdue_entries_def a p log_entry_def comp_def)
  qed
  moreover have "balances d' = [(1, 0), (7, -3), (8, -3)]"
  proof -
    have "balances example_db_pair = [(1, 0), (7, 0), (8, 0)]"
      by (simp add: balances_def example_db_pair_def example_db_def example_users_def)
    then show ?thesis by (simp add: d'(5) a p)
  qed
  ultimately show ?thesis using h d'(1) by simp
qed

subsection \<open>Reminder stages\<close>

text \<open>
  Claim C1. The inner loop of the sweep runs through the stages from \<open>24h\<close> on and
  stops at the first one whose threshold the remaining time is within, which is the
  least advanced one. With four hours left and no reminder sent so far, one sweep sends
  the \<open>24h\<close> reminder and stores the stage \<open>24h\<close>, not \<open>5h\<close>; the sweep a minute
  later then sends the \<open>5h\<close> reminder, so the skipped stage is backfilled.
\<close>

theorem sweep_backfills_skipped_stage:
  "sweep None 85600 (example_db, [])
     = (set_reminder_stage 1 ''24h'' example_db, [(7, Reminder ''24h'')])
   \<and> sweep None 85660 (sweep None 85600 (example_db, []))
     = (set_reminder_stage 1 ''5h'' example_db, [(7, Reminder ''24h''), (7, Reminder ''5h'')])
   \<and> deadline_or (m_deadline_ts example_mission) 0 - 85600 = 4 * 3600
   \<and> fetch_active_missions example_db = [example_mission]
   \<and> m_reminder_stage example_mission = []"
  by code_simp

subsection \<open>Sweeping twice\<close>



subsection \<open>The estimator of the karma policy\<close>

lemma match_category_default:
  assumes "list_all (\<lambda>cw. list_all (\<lambda>w. \<not> search_word U w (uc_lower U task)) (snd cw)) CATEGORY_KEYWORDS"
  shows "match_category U task = ''housekeeping''"
proof -
  have "find (\<lambda>cw. list_ex (\<lambda>w. search_word U w (uc_lower U task)) (snd cw)) CATEGORY_KEYWORDS = None"
    using assms by (auto simp: find_None_iff list_all_iff list_ex_iff)
  then show ?thesis by (simp add: match_category_def)
qed

text \<open>
  Claim C9. \<open>estimate\<close> is a function of the text and the flag alone (and of the
  Unicode tables). For every text and flag the difficulty is between 1 and 5 and the
  total reward is the difficulty plus 1 when the task is due today and plus 0 otherwise.
  When no keyword of any category is found in the lowered text, the category is
  \<open>housekeeping\<close>, and no category of the difficulty table has a lower base difficulty.
\<close>

theorem estimate_reward:
  "(let dec = estimate U task due_today
    in 1 \<le> kd_difficulty dec \<and> kd_difficulty dec \<le> 5
     \<and> kd_total_reward dec = kd_difficulty dec + (if due_today then 1 else 0)
     \<and> (list_all (\<lambda>cw. list_all (\<lambda>w. \<not> search_word U w (uc_lower U task)) (snd cw)) CATEGORY_KEYWORDS
          \<longrightarrow> kd_category dec = ''housekeeping'')
     \<and> list_all (\<lambda>cb. dict_get CATEGORY_BASE_DIFFICULTY ''housekeeping'' 2 \<le> snd cb)
          CATEGORY_BASE_DIFFICULTY)"
proof -
  have lowest: "list_all (\<lambda>cb. dict_get CATEGORY_BASE_DIFFICULTY ''housekeeping'' 2 \<le> snd cb)
          CATEGORY_BASE_DIFFICULTY"
    by (simp add: CATEGORY_BASE_DIFFICULTY_def dict_get_def)
  have rng: "1 \<le> clamp 1 5 x \<and> clamp 1 5 x \<le> 5" for x
    by (simp add: clamp_def)
  show ?thesis
    using lowest rng [of "dict_get CATEGORY_BASE_DIFFICULTY (match_category U task) 2"]
      match_category_default [of U task]
    by (auto simp: estimate_def Let_def URGENCY_BONUS_TODAY_def)
qed

lemmas basic_ucd_simps = basic_ucd_def basic_lower_def basic_nfkd_def basic_is_space_def
  basic_is_digit_def basic_is_word_def

theorem estimate_reward_witness:
  "list_all (\<lambda>cw. list_all (\<lambda>w. \<not> search_word basic_ucd w (uc_lower basic_ucd call_the_client)) (snd cw))
     CATEGORY_KEYWORDS
   \<and> kd_category (estimate basic_ucd call_the_client True) = ''housekeeping''
   \<and> kd_difficulty (estimate basic_ucd call_the_client True) = 1
   \<and> kd_total_reward (estimate basic_ucd call_the_client True) = 2"
proof -
  have low: "uc_lower basic_ucd call_the_client = call_the_client"
    by (simp add: call_the_client_def basic_ucd_simps)
  have h: "list_all (\<lambda>cw. list_all (\<lambda>w. \<not> search_word basic_ucd w (uc_lower basic_ucd call_the_client)) (snd cw))
     CATEGORY_KEYWORDS"
    unfolding low
    by (simp add: call_the_client_def search_word_def match_word_here_def CATEGORY_KEYWORDS_def)
  have c: "match_category basic_ucd call_the_client = ''housekeeping''"
    using h by (rule match_category_default)
  have d: "kd_difficulty (estimate basic_ucd call_the_client True) = 1"
    unfolding estimate_def c
    by (simp add: Let_def CATEGORY_BASE_DIFFICULTY_def dict_get_def clamp_def call_the_client_def)
  from estimate_reward [of basic_ucd call_the_client True] h d
  show ?thesis by (simp add: Let_def)
qed

subsection \<open>Counts of snippets\<close>


















































































end
